theory Spec2Isabelle
  imports Complex_Main
begin

section \<open>Constants and numbers\<close>

text \<open>
  The game mixes Python integers and floats (\<open>pipe_speed = 1.5\<close>, \<open>gravity = 0.8\<close>).
  Positions, speeds and velocities are modelled as exact rationals; counters, timers
  and scores, which the source only ever adds integers to, are integers. On the
  difficulty \<open>Hard\<close> every constant is a multiple of one half, so the rational
  arithmetic is exactly the arithmetic of the doubles.
\<close>

definition SCREEN_WIDTH :: int where
  "SCREEN_WIDTH = 800"

definition SCREEN_HEIGHT :: int where
  "SCREEN_HEIGHT = 600"

text \<open>Python's \<open>a // b\<close>: the floor of the quotient, for integers and floats alike.\<close>

definition floordiv :: "rat \<Rightarrow> rat \<Rightarrow> rat" where
  "floordiv a b = of_int \<lfloor>a / b\<rfloor>"

text \<open>Truncation toward zero, as C's conversion of a double to an int.\<close>

definition trunc :: "rat \<Rightarrow> int" where
  "trunc r = (if 0 \<le> r then \<lfloor>r\<rfloor> else \<lceil>r\<rceil>)"

section \<open>Difficulty settings\<close>

text \<open>The three keys of \<open>DIFFICULTY_SETTINGS\<close>, in the dictionary's insertion order.\<close>

datatype difficulty = Easy | Medium | Hard

record settings =
  s_pipe_speed :: rat
  s_pipe_gap :: int
  s_pipe_spawn_interval :: int
  s_gravity :: rat
  s_jump_strength :: rat
  s_has_moving_pipes :: bool
  s_has_powerups :: bool
  s_has_obstacles :: bool

fun DIFFICULTY_SETTINGS :: "difficulty \<Rightarrow> settings" where
  "DIFFICULTY_SETTINGS Easy =
     \<lparr>s_pipe_speed = 3 / 2, s_pipe_gap = 200, s_pipe_spawn_interval = 150,
      s_gravity = 1 / 2, s_jump_strength = - 8, s_has_moving_pipes = False,
      s_has_powerups = False, s_has_obstacles = False\<rparr>"
| "DIFFICULTY_SETTINGS Medium =
     \<lparr>s_pipe_speed = 3, s_pipe_gap = 200, s_pipe_spawn_interval = 90,
      s_gravity = 4 / 5, s_jump_strength = - 12, s_has_moving_pipes = True,
      s_has_powerups = True, s_has_obstacles = True\<rparr>"
| "DIFFICULTY_SETTINGS Hard =
     \<lparr>s_pipe_speed = 9 / 2, s_pipe_gap = 130, s_pipe_spawn_interval = 70,
      s_gravity = 1, s_jump_strength = - 14, s_has_moving_pipes = True,
      s_has_powerups = True, s_has_obstacles = True\<rparr>"

section \<open>Rectangles of the graphics library\<close>

text \<open>
  \<open>pygame.Rect\<close> stores four integers; an argument that is a float is truncated.
  \<open>colliderect\<close> is true when the two boxes overlap in a region of positive area,
  and false when either box has a zero side.
\<close>

record rect =
  rect_x :: int
  rect_y :: int
  rect_w :: int
  rect_h :: int

definition Rect :: "rat \<Rightarrow> rat \<Rightarrow> rat \<Rightarrow> rat \<Rightarrow> rect" where
  "Rect a b c d = \<lparr>rect_x = trunc a, rect_y = trunc b, rect_w = trunc c, rect_h = trunc d\<rparr>"

definition colliderect :: "rect \<Rightarrow> rect \<Rightarrow> bool" where
  "colliderect A B =
     (if rect_w A = 0 \<or> rect_h A = 0 \<or> rect_w B = 0 \<or> rect_h B = 0 then False
      else min (rect_x A) (rect_x A + rect_w A) < max (rect_x B) (rect_x B + rect_w B)
         \<and> min (rect_y A) (rect_y A + rect_h A) < max (rect_y B) (rect_y B + rect_h B)
         \<and> max (rect_x A) (rect_x A + rect_w A) > min (rect_x B) (rect_x B + rect_w B)
         \<and> max (rect_y A) (rect_y A + rect_h A) > min (rect_y B) (rect_y B + rect_h B))"

section \<open>Bird\<close>

record bird =
  bird_x :: rat
  bird_y :: rat
  bird_width :: int
  bird_height :: int
  bird_velocity :: rat
  bird_gravity :: rat
  bird_jump_strength :: rat
  bird_rotation :: rat
  bird_max_rotation :: rat
  wing_animation :: rat
  wing_speed :: rat

definition Bird_init :: "rat \<Rightarrow> rat \<Rightarrow> difficulty \<Rightarrow> bird" where
  "Bird_init x y d =
     \<lparr>bird_x = x, bird_y = y, bird_width = 30, bird_height = 30, bird_velocity = 0,
      bird_gravity = s_gravity (DIFFICULTY_SETTINGS d),
      bird_jump_strength = s_jump_strength (DIFFICULTY_SETTINGS d),
      bird_rotation = 0, bird_max_rotation = 25, wing_animation = 0, wing_speed = 1 / 2\<rparr>"

definition jump :: "bird \<Rightarrow> bird" where
  "jump b = b\<lparr>bird_velocity := bird_jump_strength b\<rparr>"

definition Bird_update :: "bird \<Rightarrow> bird" where
  "Bird_update b =
     (let v = bird_velocity b + bird_gravity b
      in b\<lparr>bird_velocity := v,
            bird_y := bird_y b + v,
            wing_animation := wing_animation b + wing_speed b,
            bird_rotation :=
              (if v < 0 then min (bird_max_rotation b) (- v * 2)
               else max (- bird_max_rotation b) (- v * 2))\<rparr>)"

definition Bird_get_rect :: "bird \<Rightarrow> rect" where
  "Bird_get_rect b = Rect (bird_x b) (bird_y b) (of_int (bird_width b)) (of_int (bird_height b))"

section \<open>Pipe and MovingPipe\<close>

text \<open>
  A \<open>MovingPipe\<close> is a \<open>Pipe\<close> with three more attributes; \<open>mover\<close> holds them and
  is \<open>None\<close> for a plain pipe. The attribute \<open>scored\<close> is set on a pipe object the
  first time it is scored and tested with \<open>hasattr\<close>; the field \<open>scored\<close> is true
  exactly when the attribute exists.
\<close>

record mover =
  move_speed :: int
  move_direction :: int
  move_timer :: int

record pipe =
  pipe_x :: rat
  pipe_width :: int
  pipe_gap :: int
  pipe_speed :: rat
  top_height :: int
  bottom_y :: int
  scored :: bool
  mover :: "mover option"

text \<open>\<open>Pipe.__init__\<close>; \<open>th\<close> is the value drawn by
  \<open>random.randint(50, SCREEN_HEIGHT - self.gap - 50)\<close>.\<close>

definition Pipe_init :: "rat \<Rightarrow> difficulty \<Rightarrow> int \<Rightarrow> pipe" where
  "Pipe_init x d th =
     \<lparr>pipe_x = x, pipe_width = 60, pipe_gap = s_pipe_gap (DIFFICULTY_SETTINGS d),
      pipe_speed = s_pipe_speed (DIFFICULTY_SETTINGS d),
      top_height = th, bottom_y = th + s_pipe_gap (DIFFICULTY_SETTINGS d),
      scored = False, mover = None\<rparr>"

definition MovingPipe_init :: "rat \<Rightarrow> difficulty \<Rightarrow> int \<Rightarrow> pipe" where
  "MovingPipe_init x d th =
     (Pipe_init x d th)\<lparr>mover := Some \<lparr>move_speed = 1, move_direction = 1, move_timer = 0\<rparr>\<rparr>"

definition Pipe_update :: "pipe \<Rightarrow> pipe" where
  "Pipe_update p = p\<lparr>pipe_x := pipe_x p - pipe_speed p\<rparr>"

text \<open>\<open>MovingPipe.update\<close>, statement by statement: the base update, the timer and
  the flip every 30 ticks, the vertical move, \<open>bottom_y\<close>, and then the clamp.\<close>

definition MovingPipe_update :: "mover \<Rightarrow> pipe \<Rightarrow> pipe" where
  "MovingPipe_update m p =
     (let p1 = Pipe_update p;
          t1 = move_timer m + 1;
          dir1 = (if t1 \<ge> 30 then move_direction m * (- 1) else move_direction m);
          t2 = (if t1 \<ge> 30 then 0 else t1);
          th1 = top_height p1 + dir1 * move_speed m;
          by1 = th1 + pipe_gap p1;
          hi = SCREEN_HEIGHT - pipe_gap p1 - 50
      in if th1 < 50 then
           p1\<lparr>top_height := 50, bottom_y := by1,
              mover := Some (m\<lparr>move_direction := 1, move_timer := t2\<rparr>)\<rparr>
         else if th1 > hi then
           p1\<lparr>top_height := hi, bottom_y := by1,
              mover := Some (m\<lparr>move_direction := - 1, move_timer := t2\<rparr>)\<rparr>
         else
           p1\<lparr>top_height := th1, bottom_y := by1,
              mover := Some (m\<lparr>move_direction := dir1, move_timer := t2\<rparr>)\<rparr>)"

text \<open>The dynamic dispatch of \<open>pipe.update()\<close>.\<close>

definition pipe_update :: "pipe \<Rightarrow> pipe" where
  "pipe_update p = (case mover p of None \<Rightarrow> Pipe_update p | Some m \<Rightarrow> MovingPipe_update m p)"

definition get_rects :: "pipe \<Rightarrow> rect \<times> rect" where
  "get_rects p =
     (Rect (pipe_x p) 0 (of_int (pipe_width p)) (of_int (top_height p)),
      Rect (pipe_x p) (of_int (bottom_y p)) (of_int (pipe_width p))
           (of_int (SCREEN_HEIGHT - bottom_y p)))"

definition is_off_screen :: "pipe \<Rightarrow> bool" where
  "is_off_screen p = (pipe_x p + of_int (pipe_width p) < 0)"

definition is_passed :: "pipe \<Rightarrow> rat \<Rightarrow> bool" where
  "is_passed p bx = (bx > pipe_x p + of_int (pipe_width p))"

section \<open>PowerUp\<close>

datatype powerup_type = Shield | SlowMotion | DoubleScore

text \<open>The attribute \<open>glow_intensity\<close> (a sine of \<open>animation\<close>, read by the drawing code
  only) is left out.\<close>

record powerup =
  pu_x :: rat
  pu_y :: rat
  pu_width :: int
  pu_height :: int
  pu_speed :: rat
  pu_type :: powerup_type
  collected :: bool
  animation :: rat

definition PowerUp_init :: "rat \<Rightarrow> rat \<Rightarrow> powerup_type \<Rightarrow> powerup" where
  "PowerUp_init x y ty =
     \<lparr>pu_x = x, pu_y = y, pu_width = 20, pu_height = 20, pu_speed = 3, pu_type = ty,
      collected = False, animation = 0\<rparr>"

definition PowerUp_update :: "powerup \<Rightarrow> powerup" where
  "PowerUp_update u = u\<lparr>pu_x := pu_x u - pu_speed u, animation := animation u + 1 / 5\<rparr>"

definition PowerUp_get_rect :: "powerup \<Rightarrow> rect" where
  "PowerUp_get_rect u =
     Rect (pu_x u - of_int (pu_width u div 2)) (pu_y u - of_int (pu_height u div 2))
          (of_int (pu_width u)) (of_int (pu_height u))"

definition PowerUp_is_off_screen :: "powerup \<Rightarrow> bool" where
  "PowerUp_is_off_screen u = (pu_x u + of_int (pu_width u) < 0)"

section \<open>Game state\<close>

datatype mode = MENU | PLAYING | GAME_OVER | SETTINGS | DIFFICULTY_SELECT

datatype colour = RED | BLUE | YELLOW

text \<open>The captions of the countdown: nothing, "3", "2", "1" and the start caption.\<close>

datatype caption = Caption_none | Caption_3 | Caption_2 | Caption_1 | Caption_start

text \<open>
  Sound, music and particles are collaborators of the simulation; what the sound
  manager and the particle system do with a call is not modelled. The field
  \<open>effects\<close> of a game state lists, in order, the calls made to them by the
  operation (one \<open>update\<close>, or the handling of one event) that produced the state:
  every operation starts from the empty list (\<open>begin_call\<close>).
\<close>

datatype effect =
    PlaySound string
  | PlayBackgroundMusic
  | StopBackgroundMusic
  | AddExplosion rat rat colour int
  | ClearParticles

datatype error = ValueError | AttributeError | IndexError

record game =
  running :: bool
  state :: mode
  difficulty :: difficulty
  paused :: bool
  bird :: "bird option"
  pipes :: "pipe list"
  powerups :: "powerup list"
  score :: int
  high_score :: int
  pipe_spawn_timer :: int
  powerup_spawn_timer :: int
  pipe_spawn_interval :: int
  powerup_spawn_interval :: int
  shield_active :: bool
  shield_timer :: int
  slow_motion_active :: bool
  slow_motion_timer :: int
  double_score_active :: bool
  double_score_timer :: int
  menu_selection :: int
  settings_selection :: int
  difficulty_selection :: int
  volume_dragging :: bool
  countdown_timer :: int
  countdown_active :: bool
  countdown_text :: caption
  sound_volume :: rat
  effects :: "effect list"

definition begin_call :: "game \<Rightarrow> game" where
  "begin_call g = g\<lparr>effects := []\<rparr>"

definition emit :: "effect list \<Rightarrow> game \<Rightarrow> game" where
  "emit es g = g\<lparr>effects := effects g @ es\<rparr>"

definition play_sound :: "string \<Rightarrow> game \<Rightarrow> game" where
  "play_sound name g = emit [PlaySound name] g"

definition set_sound_volume :: "rat \<Rightarrow> game \<Rightarrow> game" where
  "set_sound_volume v g = g\<lparr>sound_volume := max 0 (min 1 v)\<rparr>"

text \<open>\<open>Game.__init__\<close>, without the fonts, the image cache and the audio warm-up.\<close>

definition Game_init :: game where
  "Game_init =
     \<lparr>running = True, state = MENU, difficulty = Medium, paused = False, bird = None,
      pipes = [], powerups = [], score = 0, high_score = 0, pipe_spawn_timer = 0,
      powerup_spawn_timer = 0,
      pipe_spawn_interval = s_pipe_spawn_interval (DIFFICULTY_SETTINGS Medium),
      powerup_spawn_interval = 300,
      shield_active = False, shield_timer = 0, slow_motion_active = False,
      slow_motion_timer = 0, double_score_active = False, double_score_timer = 0,
      menu_selection = 0, settings_selection = 0, difficulty_selection = 0,
      volume_dragging = False, countdown_timer = 0, countdown_active = False,
      countdown_text = Caption_none, sound_volume = 1 / 2, effects = []\<rparr>"

definition start_game :: "game \<Rightarrow> game" where
  "start_game g =
     emit [ClearParticles, PlaySound ''menu_confirm'', PlayBackgroundMusic]
       (g\<lparr>state := PLAYING,
          bird := Some (Bird_init (of_int (SCREEN_WIDTH div 2 - 15))
                          (of_int (SCREEN_HEIGHT div 2)) (difficulty g)),
          pipes := [], powerups := [], score := 0,
          pipe_spawn_timer := 0, powerup_spawn_timer := 0,
          shield_active := False, shield_timer := 0,
          slow_motion_active := False, slow_motion_timer := 0,
          double_score_active := False, double_score_timer := 0,
          pipe_spawn_interval := s_pipe_spawn_interval (DIFFICULTY_SETTINGS (difficulty g)),
          countdown_active := True, countdown_timer := 240, countdown_text := Caption_3\<rparr>)"

definition collect_powerup :: "powerup \<Rightarrow> game \<Rightarrow> game" where
  "collect_powerup u g =
     (case pu_type u of
        Shield \<Rightarrow> g\<lparr>shield_active := True, shield_timer := 300\<rparr>
      | SlowMotion \<Rightarrow> g\<lparr>slow_motion_active := True, slow_motion_timer := 180\<rparr>
      | DoubleScore \<Rightarrow> g\<lparr>double_score_active := True, double_score_timer := 300\<rparr>)"

section \<open>Input events\<close>

text \<open>
  One value of \<open>event\<close> is one element of \<open>pygame.event.get()\<close>. The mouse position
  read by \<open>pygame.mouse.get_pos()\<close> while the event is handled travels with the event.
\<close>

datatype key = K_ESCAPE | K_SPACE | K_RETURN | K_UP | K_DOWN | K_LEFT | K_RIGHT | K_OTHER

datatype event =
    QUIT
  | KEYDOWN key
  | MOUSEBUTTONDOWN int int int
  | MOUSEBUTTONUP int
  | MOUSEMOTION int int
  | OTHER_EVENT

text \<open>\<open>self.bird.jump()\<close> followed by the jump sound; on \<open>None\<close> the attribute
  access raises.\<close>

definition bird_jump :: "game \<Rightarrow> error + game" where
  "bird_jump g =
     (case bird g of
        None \<Rightarrow> Inl AttributeError
      | Some b \<Rightarrow> Inr (play_sound ''jump'' (g\<lparr>bird := Some (jump b)\<rparr>)))"

text \<open>\<open>list(DIFFICULTY_SETTINGS.keys())[i]\<close>, with Python's negative indices.\<close>

definition difficulties :: "difficulty list" where
  "difficulties = [Easy, Medium, Hard]"

definition py_index :: "'a list \<Rightarrow> int \<Rightarrow> error + 'a" where
  "py_index xs i =
     (if 0 \<le> i \<and> i < int (length xs) then Inr (xs ! nat i)
      else if - int (length xs) \<le> i \<and> i < 0 then Inr (xs ! nat (int (length xs) + i))
      else Inl IndexError)"

definition on_escape :: "game \<Rightarrow> game" where
  "on_escape g =
     (if state g = PLAYING then g\<lparr>paused := \<not> paused g\<rparr>
      else if state g = SETTINGS then g\<lparr>state := MENU\<rparr>
      else if state g = DIFFICULTY_SELECT then g\<lparr>state := SETTINGS\<rparr>
      else if state g = GAME_OVER then g\<lparr>state := MENU\<rparr>
      else g\<lparr>running := False\<rparr>)"

definition on_space :: "game \<Rightarrow> error + game" where
  "on_space g =
     (if state g = MENU then Inr (start_game g)
      else if state g = PLAYING \<and> \<not> paused g then bird_jump g
      else if state g = GAME_OVER then Inr (start_game g)
      else Inr g)"

definition on_return :: "game \<Rightarrow> error + game" where
  "on_return g =
     (if state g = MENU then
        (let g1 = play_sound ''menu_confirm'' g
         in if menu_selection g = 0 then Inr (start_game g1)
            else if menu_selection g = 1 then Inr (g1\<lparr>state := SETTINGS\<rparr>)
            else if menu_selection g = 2 then Inr (g1\<lparr>running := False\<rparr>)
            else Inr g1)
      else if state g = SETTINGS then
        (let g1 = play_sound ''menu_confirm'' g
         in if settings_selection g = 0 then Inr (g1\<lparr>state := DIFFICULTY_SELECT\<rparr>)
            else if settings_selection g = 2 then Inr (g1\<lparr>state := MENU\<rparr>)
            else Inr g1)
      else if state g = DIFFICULTY_SELECT then
        (case py_index difficulties (difficulty_selection g) of
           Inl e \<Rightarrow> Inl e
         | Inr d \<Rightarrow> Inr (start_game (play_sound ''menu_confirm'' (g\<lparr>difficulty := d\<rparr>))))
      else Inr g)"

text \<open>The keys up and down move the selection of the current screen by \<open>k\<close>,
  modulo 3 (Python's \<open>%\<close> with a positive divisor is never negative, as \<open>mod\<close>).\<close>

definition on_up_down :: "int \<Rightarrow> game \<Rightarrow> game" where
  "on_up_down k g =
     (if state g = MENU then
        play_sound ''menu_select'' (g\<lparr>menu_selection := (menu_selection g + k) mod 3\<rparr>)
      else if state g = SETTINGS then
        play_sound ''menu_select'' (g\<lparr>settings_selection := (settings_selection g + k) mod 3\<rparr>)
      else if state g = DIFFICULTY_SELECT then
        play_sound ''menu_select''
          (g\<lparr>difficulty_selection := (difficulty_selection g + k) mod 3\<rparr>)
      else g)"

definition on_left :: "game \<Rightarrow> game" where
  "on_left g =
     (if state g = SETTINGS \<and> settings_selection g = 1 then
        play_sound ''menu_select'' (set_sound_volume (max 0 (sound_volume g - 1 / 10)) g)
      else g)"

definition on_right :: "game \<Rightarrow> game" where
  "on_right g =
     (if state g = SETTINGS \<and> settings_selection g = 1 then
        play_sound ''menu_select'' (set_sound_volume (min 1 (sound_volume g + 1 / 10)) g)
      else g)"

text \<open>The boxes of the option lists: option \<open>i\<close> of a list that starts at height \<open>y0\<close>
  with rows \<open>dy\<close> apart, half width \<open>hw\<close>, from \<open>up\<close> above to \<open>down\<close> below the row.
  \<open>find\<close> returns the first index that is hit, as the loop with its \<open>break\<close>.\<close>

definition hit_option :: "int \<Rightarrow> int \<Rightarrow> int \<Rightarrow> int \<Rightarrow> int \<Rightarrow> int \<Rightarrow> int \<Rightarrow> int option" where
  "hit_option y0 dy hw up down mx my =
     find (\<lambda>i. SCREEN_WIDTH div 2 - hw \<le> mx \<and> mx \<le> SCREEN_WIDTH div 2 + hw
              \<and> (y0 + i * dy) - up \<le> my \<and> my \<le> (y0 + i * dy) + down) [0, 1, 2]"

definition slider_volume :: "int \<Rightarrow> rat" where
  "slider_volume mx = max 0 (min 1 (of_int (mx - (SCREEN_WIDTH div 2 + 80)) / 200))"

definition settings_click :: "int \<Rightarrow> int \<Rightarrow> game \<Rightarrow> game" where
  "settings_click mx my g =
     (let g1 =
        (if 20 \<le> mx \<and> mx \<le> 100 \<and> 20 \<le> my \<and> my \<le> 55 then
           (play_sound ''menu_select'' g)\<lparr>state := MENU\<rparr>
         else
           (case hit_option 220 80 200 10 40 mx my of
              None \<Rightarrow> g
            | Some i \<Rightarrow>
                (let g0 = play_sound ''menu_select'' (g\<lparr>settings_selection := i\<rparr>)
                 in if i = 0 then g0\<lparr>state := DIFFICULTY_SELECT\<rparr>
                    else if i = 2 then g0\<lparr>state := MENU\<rparr>
                    else g0)))
      in if (SCREEN_WIDTH div 2 + 80) - 10 \<le> mx \<and> mx \<le> (SCREEN_WIDTH div 2 + 80) + 200 + 10
            \<and> (220 + 1 * 80 - 10) - 10 \<le> my \<and> my \<le> (220 + 1 * 80 - 10) + 20 + 10 then
           set_sound_volume (slider_volume mx) (g1\<lparr>volume_dragging := True\<rparr>)
         else g1)"

definition on_mouse_down :: "int \<Rightarrow> int \<Rightarrow> game \<Rightarrow> error + game" where
  "on_mouse_down mx my g =
     (if state g = MENU then
        (case hit_option 200 80 200 10 40 mx my of
           None \<Rightarrow> Inr g
         | Some i \<Rightarrow>
             (let g1 = play_sound ''menu_select'' (g\<lparr>menu_selection := i\<rparr>)
              in if i = 0 then Inr (start_game g1)
                 else if i = 1 then Inr (g1\<lparr>state := SETTINGS\<rparr>)
                 else if i = 2 then Inr (g1\<lparr>running := False\<rparr>)
                 else Inr g1))
      else if state g = PLAYING \<and> \<not> paused g then bird_jump g
      else if state g = GAME_OVER then Inr (start_game g)
      else if state g = SETTINGS then Inr (settings_click mx my g)
      else if state g = DIFFICULTY_SELECT then
        (if 20 \<le> mx \<and> mx \<le> 100 \<and> 20 \<le> my \<and> my \<le> 55 then
           Inr ((play_sound ''menu_select'' g)\<lparr>state := SETTINGS\<rparr>)
         else
           (case hit_option 220 100 250 15 55 mx my of
              None \<Rightarrow> Inr g
            | Some i \<Rightarrow>
                (case py_index difficulties i of
                   Inl e \<Rightarrow> Inl e
                 | Inr d \<Rightarrow>
                     Inr (start_game
                            ((play_sound ''menu_select'' (g\<lparr>difficulty_selection := i\<rparr>))
                               \<lparr>difficulty := d\<rparr>)))))
      else Inr g)"

definition on_mouse_motion :: "int \<Rightarrow> int \<Rightarrow> game \<Rightarrow> game" where
  "on_mouse_motion mx my g =
     (if volume_dragging g \<and> state g = SETTINGS then set_sound_volume (slider_volume mx) g
      else if state g = MENU then
        (case hit_option 220 80 200 10 40 mx my of
           None \<Rightarrow> g
         | Some i \<Rightarrow>
             if menu_selection g \<noteq> i then play_sound ''menu_select'' (g\<lparr>menu_selection := i\<rparr>)
             else g)
      else if state g = SETTINGS then
        (case hit_option 220 80 200 10 40 mx my of
           None \<Rightarrow> g
         | Some i \<Rightarrow>
             if settings_selection g \<noteq> i then
               play_sound ''menu_select'' (g\<lparr>settings_selection := i\<rparr>)
             else g)
      else if state g = DIFFICULTY_SELECT then
        (case hit_option 220 100 250 15 55 mx my of
           None \<Rightarrow> g
         | Some i \<Rightarrow>
             if difficulty_selection g \<noteq> i then
               play_sound ''menu_select'' (g\<lparr>difficulty_selection := i\<rparr>)
             else g)
      else g)"

text \<open>The body of the loop of \<open>handle_events\<close>, for one event.\<close>

fun dispatch_event :: "event \<Rightarrow> game \<Rightarrow> error + game" where
  "dispatch_event QUIT g = Inr (g\<lparr>running := False\<rparr>)"
| "dispatch_event (KEYDOWN K_ESCAPE) g = Inr (on_escape g)"
| "dispatch_event (KEYDOWN K_SPACE) g = on_space g"
| "dispatch_event (KEYDOWN K_RETURN) g = on_return g"
| "dispatch_event (KEYDOWN K_UP) g = Inr (on_up_down (- 1) g)"
| "dispatch_event (KEYDOWN K_DOWN) g = Inr (on_up_down 1 g)"
| "dispatch_event (KEYDOWN K_LEFT) g = Inr (on_left g)"
| "dispatch_event (KEYDOWN K_RIGHT) g = Inr (on_right g)"
| "dispatch_event (KEYDOWN K_OTHER) g = Inr g"
| "dispatch_event (MOUSEBUTTONDOWN button mx my) g =
     (if button = 1 then on_mouse_down mx my g else Inr g)"
| "dispatch_event (MOUSEBUTTONUP button) g =
     (if button = 1 then Inr (g\<lparr>volume_dragging := False\<rparr>) else Inr g)"
| "dispatch_event (MOUSEMOTION mx my) g = Inr (on_mouse_motion mx my g)"
| "dispatch_event OTHER_EVENT g = Inr g"

definition handle_event :: "event \<Rightarrow> game \<Rightarrow> error + game" where
  "handle_event e g = dispatch_event e (begin_call g)"

fun handle_events :: "event list \<Rightarrow> game \<Rightarrow> error + game" where
  "handle_events [] g = Inr g"
| "handle_events (e # es) g =
     (case handle_event e g of Inl err \<Rightarrow> Inl err | Inr g1 \<Rightarrow> handle_events es g1)"

section \<open>The update step\<close>

text \<open>
  The random draws one call of \<open>Game.update\<close> can make are passed in: the value of
  \<open>random.random()\<close>, the \<open>randint\<close> for the height of a new pipe, and the \<open>randint\<close>
  and the \<open>choice\<close> for a new power-up. \<open>valid_rnd\<close> holds of the draws the library
  can return for the difficulty \<open>d\<close>.
\<close>

record rnd =
  rnd_random :: rat
  rnd_top_height :: int
  rnd_powerup_y :: int
  rnd_powerup_type :: powerup_type

definition valid_rnd :: "difficulty \<Rightarrow> rnd \<Rightarrow> bool" where
  "valid_rnd d r =
     (0 \<le> rnd_random r \<and> rnd_random r < 1
      \<and> 50 \<le> rnd_top_height r
      \<and> rnd_top_height r \<le> SCREEN_HEIGHT - s_pipe_gap (DIFFICULTY_SETTINGS d) - 50
      \<and> 100 \<le> rnd_powerup_y r \<and> rnd_powerup_y r \<le> SCREEN_HEIGHT - 100)"

text \<open>The countdown branch of \<open>update\<close>, up to its \<open>return\<close>.\<close>

definition countdown_tick :: "game \<Rightarrow> game" where
  "countdown_tick g =
     (let t = countdown_timer g - 1; g1 = g\<lparr>countdown_timer := t\<rparr>
      in if t \<le> 0 then play_sound ''menu_confirm'' (g1\<lparr>countdown_active := False\<rparr>)
         else if t = 60 then play_sound ''menu_confirm'' (g1\<lparr>countdown_text := Caption_start\<rparr>)
         else if t = 120 then play_sound ''countdown'' (g1\<lparr>countdown_text := Caption_1\<rparr>)
         else if t = 180 then play_sound ''countdown'' (g1\<lparr>countdown_text := Caption_2\<rparr>)
         else if t = 240 then play_sound ''countdown'' (g1\<lparr>countdown_text := Caption_3\<rparr>)
         else g1)"

text \<open>The three effect timers.\<close>

definition update_shield :: "game \<Rightarrow> game" where
  "update_shield g =
     (if shield_active g then
        (if shield_timer g - 1 \<le> 0 then
           g\<lparr>shield_timer := shield_timer g - 1, shield_active := False\<rparr>
         else g\<lparr>shield_timer := shield_timer g - 1\<rparr>)
      else g)"

definition update_slow_motion :: "game \<Rightarrow> game" where
  "update_slow_motion g =
     (if slow_motion_active g then
        (if slow_motion_timer g - 1 \<le> 0 then
           g\<lparr>slow_motion_timer := slow_motion_timer g - 1, slow_motion_active := False\<rparr>
         else g\<lparr>slow_motion_timer := slow_motion_timer g - 1\<rparr>)
      else g)"

definition update_double_score :: "game \<Rightarrow> game" where
  "update_double_score g =
     (if double_score_active g then
        (if double_score_timer g - 1 \<le> 0 then
           g\<lparr>double_score_timer := double_score_timer g - 1, double_score_active := False\<rparr>
         else g\<lparr>double_score_timer := double_score_timer g - 1\<rparr>)
      else g)"

definition update_effect_timers :: "game \<Rightarrow> game" where
  "update_effect_timers g = update_double_score (update_slow_motion (update_shield g))"

text \<open>The pipe spawner and the power-up spawner.\<close>

definition spawn_pipe :: "rnd \<Rightarrow> game \<Rightarrow> game" where
  "spawn_pipe r g =
     (if pipe_spawn_timer g + 1 \<ge> pipe_spawn_interval g then
        g\<lparr>pipes := pipes g @
              [if s_has_moving_pipes (DIFFICULTY_SETTINGS (difficulty g)) \<and> rnd_random r < 4 / 10
               then MovingPipe_init (of_int SCREEN_WIDTH) (difficulty g) (rnd_top_height r)
               else Pipe_init (of_int SCREEN_WIDTH) (difficulty g) (rnd_top_height r)],
           pipe_spawn_timer := 0\<rparr>
      else g\<lparr>pipe_spawn_timer := pipe_spawn_timer g + 1\<rparr>)"

definition spawn_powerup :: "rnd \<Rightarrow> game \<Rightarrow> game" where
  "spawn_powerup r g =
     (if s_has_powerups (DIFFICULTY_SETTINGS (difficulty g)) then
        (if powerup_spawn_timer g + 1 \<ge> powerup_spawn_interval g then
           g\<lparr>powerups := powerups g @
                 [PowerUp_init (of_int SCREEN_WIDTH) (of_int (rnd_powerup_y r))
                    (rnd_powerup_type r)],
              powerup_spawn_timer := 0\<rparr>
         else g\<lparr>powerup_spawn_timer := powerup_spawn_timer g + 1\<rparr>)
      else g)"

text \<open>The crash: the mode, the crash sound, the music and the explosion, as both the
  pipe loop and the ground check do it.\<close>

definition crash :: "bird \<Rightarrow> game \<Rightarrow> game" where
  "crash b g =
     emit [PlaySound ''crash'', StopBackgroundMusic,
           AddExplosion (bird_x b + of_int (bird_width b div 2))
                        (bird_y b + of_int (bird_height b div 2)) RED 15]
       (g\<lparr>state := GAME_OVER\<rparr>)"

text \<open>
  The pipe loop. The loop runs over a copy of the list and mutates the pipe objects,
  which the list \<open>self.pipes\<close> shares; it removes from \<open>self.pipes\<close> only the pipe of
  the current iteration. So \<open>self.pipes\<close> is, at every moment, the pipes kept so far
  followed by the pipes not yet visited, and the loop is a recursion that returns the
  game and that list. The three steps of the body are \<open>pipe_move\<close>, \<open>pipe_hits\<close> and
  \<open>score_pipe\<close>; the \<open>break\<close> leaves the current pipe (moved) and the unvisited pipes
  (not moved) in the list.
\<close>

definition pipe_move :: "game \<Rightarrow> pipe \<Rightarrow> pipe" where
  "pipe_move g p =
     (if \<not> slow_motion_active g then pipe_update p
      else p\<lparr>pipe_x := pipe_x p - floordiv (pipe_speed p) 2\<rparr>)"

definition pipe_hits :: "bird \<Rightarrow> pipe \<Rightarrow> bool" where
  "pipe_hits b p =
     (colliderect (Bird_get_rect b) (fst (get_rects p))
      \<or> colliderect (Bird_get_rect b) (snd (get_rects p)))"

definition score_pipe :: "bird \<Rightarrow> game \<Rightarrow> pipe \<Rightarrow> game \<times> pipe" where
  "score_pipe b g p =
     (if is_passed p (bird_x b) \<and> \<not> scored p then
        (let s = score g + (if double_score_active g then 2 else 1);
             g1 = play_sound ''score'' (g\<lparr>score := s\<rparr>)
         in (if s > high_score g1 then g1\<lparr>high_score := s\<rparr> else g1, p\<lparr>scored := True\<rparr>))
      else (g, p))"

fun pipes_loop :: "bird \<Rightarrow> game \<Rightarrow> pipe list \<Rightarrow> game \<times> pipe list" where
  "pipes_loop b g [] = (g, [])"
| "pipes_loop b g (p # rest) =
     (let p1 = pipe_move g p
      in if pipe_hits b p1 \<and> \<not> shield_active g then (crash b g, p1 # rest)
         else
           (let (g1, p2) = score_pipe b g p1;
                (g2, ps) = pipes_loop b g1 rest
            in (g2, if is_off_screen p2 then ps else p2 # ps)))"

text \<open>
  The power-up loop, in the same way. A collected power-up is removed from the list;
  if the off-screen test that follows holds as well, the second \<open>remove\<close> of the same
  object finds it gone and raises \<open>ValueError\<close>.
\<close>

definition powerup_move :: "game \<Rightarrow> powerup \<Rightarrow> powerup" where
  "powerup_move g u =
     (if \<not> slow_motion_active g then PowerUp_update u
      else u\<lparr>pu_x := pu_x u - floordiv (pu_speed u) 2\<rparr>)"

definition powerup_hits :: "bird \<Rightarrow> powerup \<Rightarrow> bool" where
  "powerup_hits b u = (colliderect (Bird_get_rect b) (PowerUp_get_rect u) \<and> \<not> collected u)"

definition powerup_colour :: "powerup_type \<Rightarrow> colour" where
  "powerup_colour ty = (case ty of Shield \<Rightarrow> BLUE | SlowMotion \<Rightarrow> YELLOW | DoubleScore \<Rightarrow> RED)"

definition collect :: "powerup \<Rightarrow> game \<Rightarrow> game" where
  "collect u g =
     emit [PlaySound ''powerup'', AddExplosion (pu_x u) (pu_y u) (powerup_colour (pu_type u)) 8]
       (collect_powerup (u\<lparr>collected := True\<rparr>) g)"

fun powerups_loop :: "bird \<Rightarrow> game \<Rightarrow> powerup list \<Rightarrow> error + game \<times> powerup list" where
  "powerups_loop b g [] = Inr (g, [])"
| "powerups_loop b g (u # rest) =
     (let u1 = powerup_move g u
      in if powerup_hits b u1 then
           (if PowerUp_is_off_screen u1 then Inl ValueError
            else powerups_loop b (collect u1 g) rest)
         else
           (case powerups_loop b g rest of
              Inl e \<Rightarrow> Inl e
            | Inr (g1, us) \<Rightarrow> Inr (g1, if PowerUp_is_off_screen u1 then us else u1 # us)))"

text \<open>The ground and ceiling check at the end of the tick.\<close>

definition out_of_bounds :: "bird \<Rightarrow> bool" where
  "out_of_bounds b =
     (bird_y b + of_int (bird_height b) \<ge> of_int SCREEN_HEIGHT \<or> bird_y b \<le> 0)"

definition ground_check :: "bird \<Rightarrow> game \<Rightarrow> game" where
  "ground_check b g = (if out_of_bounds b \<and> \<not> shield_active g then crash b g else g)"

text \<open>
  The simulation part of \<open>update\<close>, after the countdown branch; \<open>b\<close> is the bird
  before the tick. Its phases, in the order of the source: the bird, the effect timers
  and the two spawners (\<open>advance\<close>); the pipe loop (\<open>update_pipes\<close>); the power-up loop
  (\<open>update_powerups\<close>); the ground and ceiling check.
\<close>

definition advance :: "rnd \<Rightarrow> bird \<Rightarrow> game \<Rightarrow> game" where
  "advance r b g =
     spawn_powerup r (spawn_pipe r (update_effect_timers (g\<lparr>bird := Some (Bird_update b)\<rparr>)))"

definition update_pipes :: "bird \<Rightarrow> game \<Rightarrow> game" where
  "update_pipes b g = (case pipes_loop b g (pipes g) of (g1, ps) \<Rightarrow> g1\<lparr>pipes := ps\<rparr>)"

definition update_powerups :: "bird \<Rightarrow> game \<Rightarrow> error + game" where
  "update_powerups b g =
     (case powerups_loop b g (powerups g) of
        Inl e \<Rightarrow> Inl e
      | Inr (g1, us) \<Rightarrow> Inr (g1\<lparr>powerups := us\<rparr>))"

definition simulate :: "rnd \<Rightarrow> bird \<Rightarrow> game \<Rightarrow> error + game" where
  "simulate r b g =
     (let b1 = Bird_update b
      in case update_powerups b1 (update_pipes b1 (advance r b g)) of
           Inl e \<Rightarrow> Inl e
         | Inr g1 \<Rightarrow> Inr (ground_check b1 g1))"

definition update :: "rnd \<Rightarrow> game \<Rightarrow> error + game" where
  "update r g =
     (case bird g of
        None \<Rightarrow> Inr (begin_call g)
      | Some b \<Rightarrow>
          if state g = PLAYING \<and> \<not> paused g then
            (if countdown_active g then Inr (countdown_tick (begin_call g))
             else simulate r b (begin_call g))
          else Inr (begin_call g))"

text \<open>A simulation tick is a call of \<open>update\<close> that reaches the simulation.\<close>

definition sim_tick :: "game \<Rightarrow> bool" where
  "sim_tick g = (state g = PLAYING \<and> bird g \<noteq> None \<and> \<not> paused g \<and> \<not> countdown_active g)"

section \<open>The main loop\<close>

text \<open>One iteration of \<open>run\<close> without the drawing: the pending events, then
  \<open>update\<close>. A run is a list of such frames; an exception ends it.\<close>

definition frame :: "event list \<times> rnd \<Rightarrow> game \<Rightarrow> error + game" where
  "frame f g = (case handle_events (fst f) g of Inl e \<Rightarrow> Inl e | Inr g1 \<Rightarrow> update (snd f) g1)"

fun run_from :: "(event list \<times> rnd) list \<Rightarrow> error + game \<Rightarrow> error + game" where
  "run_from [] res = res"
| "run_from (f # fs) res =
     run_from fs (case res of Inl e \<Rightarrow> Inl e | Inr g \<Rightarrow> frame f g)"

definition run_frames :: "(event list \<times> rnd) list \<Rightarrow> game \<Rightarrow> error + game" where
  "run_frames fs g = run_from fs (Inr g)"

text \<open>The states the program can be in: the initial one, and every state an event
  or an update leads to from one of them without raising.\<close>

inductive reachable :: "game \<Rightarrow> bool" where
  reachable_init: "reachable Game_init"
| reachable_event: "reachable g \<Longrightarrow> handle_event e g = Inr g' \<Longrightarrow> reachable g'"
| reachable_update:
    "reachable g \<Longrightarrow> valid_rnd (difficulty g) r \<Longrightarrow> update r g = Inr g' \<Longrightarrow> reachable g'"

section \<open>Invariants and example runs\<close>

text \<open>
  The definitions below belong to the verification, not to the program: the invariant
  of the reachable states, the fields each loop leaves alone, and the concrete runs
  and states the example theorems are evaluated at.
\<close>

definition bird_ok :: "bird \<Rightarrow> bool" where
  "bird_ok b = (bird_x b = 385 \<and> bird_width b = 30 \<and> bird_height b = 30)"

definition powerup_ok :: "powerup \<Rightarrow> bool" where
  "powerup_ok u = (pu_width u = 20 \<and> pu_height u = 20 \<and> pu_speed u = 3 \<and> \<not> collected u)"

definition timer_ok :: "bool \<Rightarrow> int \<Rightarrow> int \<Rightarrow> bool" where
  "timer_ok active t full = (if active then 1 \<le> t \<and> t \<le> full else t = 0)"

definition inv :: "game \<Rightarrow> bool" where
  "inv g =
     ((paused g \<longrightarrow> state g = PLAYING)
      \<and> (state g = PLAYING \<longrightarrow> bird g \<noteq> None)
      \<and> (case bird g of None \<Rightarrow> True | Some b \<Rightarrow> bird_ok b)
      \<and> timer_ok (shield_active g) (shield_timer g) 300
      \<and> timer_ok (slow_motion_active g) (slow_motion_timer g) 180
      \<and> timer_ok (double_score_active g) (double_score_timer g) 300
      \<and> pipe_spawn_interval g = s_pipe_spawn_interval (DIFFICULTY_SETTINGS (difficulty g))
      \<and> powerup_spawn_interval g = 300
      \<and> 0 \<le> difficulty_selection g \<and> difficulty_selection g \<le> 2
      \<and> list_all powerup_ok (powerups g))"

definition pipes_loop_keeps :: "game \<Rightarrow> game \<Rightarrow> bool" where
  "pipes_loop_keeps g g' =
     (running g' = running g \<and> difficulty g' = difficulty g \<and> paused g' = paused g
      \<and> bird g' = bird g \<and> pipes g' = pipes g \<and> powerups g' = powerups g
      \<and> pipe_spawn_timer g' = pipe_spawn_timer g
      \<and> powerup_spawn_timer g' = powerup_spawn_timer g
      \<and> pipe_spawn_interval g' = pipe_spawn_interval g
      \<and> powerup_spawn_interval g' = powerup_spawn_interval g
      \<and> shield_active g' = shield_active g \<and> shield_timer g' = shield_timer g
      \<and> slow_motion_active g' = slow_motion_active g
      \<and> slow_motion_timer g' = slow_motion_timer g
      \<and> double_score_active g' = double_score_active g
      \<and> double_score_timer g' = double_score_timer g
      \<and> menu_selection g' = menu_selection g \<and> settings_selection g' = settings_selection g
      \<and> difficulty_selection g' = difficulty_selection g
      \<and> volume_dragging g' = volume_dragging g \<and> countdown_timer g' = countdown_timer g
      \<and> countdown_active g' = countdown_active g \<and> countdown_text g' = countdown_text g
      \<and> sound_volume g' = sound_volume g)"

definition powerups_loop_keeps :: "game \<Rightarrow> game \<Rightarrow> bool" where
  "powerups_loop_keeps g g' =
     (running g' = running g \<and> state g' = state g \<and> difficulty g' = difficulty g
      \<and> paused g' = paused g \<and> bird g' = bird g \<and> pipes g' = pipes g
      \<and> powerups g' = powerups g \<and> score g' = score g \<and> high_score g' = high_score g
      \<and> pipe_spawn_timer g' = pipe_spawn_timer g
      \<and> powerup_spawn_timer g' = powerup_spawn_timer g
      \<and> pipe_spawn_interval g' = pipe_spawn_interval g
      \<and> powerup_spawn_interval g' = powerup_spawn_interval g
      \<and> menu_selection g' = menu_selection g \<and> settings_selection g' = settings_selection g
      \<and> difficulty_selection g' = difficulty_selection g
      \<and> volume_dragging g' = volume_dragging g \<and> countdown_timer g' = countdown_timer g
      \<and> countdown_active g' = countdown_active g \<and> countdown_text g' = countdown_text g
      \<and> sound_volume g' = sound_volume g)"

definition timers_ok :: "game \<Rightarrow> bool" where
  "timers_ok g =
     (timer_ok (shield_active g) (shield_timer g) 300
      \<and> timer_ok (slow_motion_active g) (slow_motion_timer g) 180
      \<and> timer_ok (double_score_active g) (double_score_timer g) 300)"

text \<open>A fixed value for the random draws: a plain pipe with its gap at 205, and a
  shield power-up at height 250. It is a possible draw on every difficulty.\<close>

definition draws :: rnd where
  "draws = \<lparr>rnd_random = 1 / 2, rnd_top_height = 205, rnd_powerup_y = 250,
            rnd_powerup_type = Shield\<rparr>"

text \<open>The state after the keys space (start of a round on the default difficulty)
  and escape (pause) in the menu.\<close>

definition paused_example :: game where
  "paused_example =
     \<lparr>running = True, state = PLAYING, difficulty = Medium, paused = True,
      bird = Some \<lparr>bird_x = 385, bird_y = 300, bird_width = 30, bird_height = 30,
                   bird_velocity = 0, bird_gravity = 4 / 5, bird_jump_strength = - 12,
                   bird_rotation = 0, bird_max_rotation = 25, wing_animation = 0,
                   wing_speed = 1 / 2\<rparr>,
      pipes = [], powerups = [], score = 0, high_score = 0, pipe_spawn_timer = 0,
      powerup_spawn_timer = 0, pipe_spawn_interval = 90, powerup_spawn_interval = 300,
      shield_active = False, shield_timer = 0, slow_motion_active = False,
      slow_motion_timer = 0, double_score_active = False, double_score_timer = 0,
      menu_selection = 0, settings_selection = 0, difficulty_selection = 0,
      volume_dragging = False, countdown_timer = 240, countdown_active = True,
      countdown_text = Caption_3, sound_volume = 1 / 2, effects = []\<rparr>"

section \<open>Basic lemmas\<close>

lemma inv_init: "inv Game_init"
  by (simp add: inv_def Game_init_def timer_ok_def)

lemma inv_begin_call [simp]: "inv (begin_call g) = inv g"
  by (simp add: inv_def begin_call_def)

lemma inv_emit [simp]: "inv (emit es g) = inv g"
  by (simp add: inv_def emit_def)

lemma inv_play_sound [simp]: "inv (play_sound n g) = inv g"
  by (simp add: play_sound_def)

lemma inv_start_game [simp]:
  "inv (start_game g) =
     (powerup_spawn_interval g = 300 \<and> 0 \<le> difficulty_selection g \<and> difficulty_selection g \<le> 2)"
  by (auto simp: inv_def start_game_def emit_def timer_ok_def Bird_init_def bird_ok_def
        SCREEN_WIDTH_def SCREEN_HEIGHT_def)

lemma hit_option_range: "hit_option y0 dy hw up down mx my = Some i \<Longrightarrow> i = 0 \<or> i = 1 \<or> i = 2"
  by (auto simp: hit_option_def split: if_splits)

lemma py_index_difficulties: "0 \<le> i \<Longrightarrow> i \<le> 2 \<Longrightarrow> \<exists>d. py_index difficulties i = Inr d"
  by (simp add: py_index_def difficulties_def)

lemma inv_on_escape: "inv g \<Longrightarrow> inv (on_escape g)"
  by (auto simp: inv_def on_escape_def)

lemma inv_bird_jump: "inv g \<Longrightarrow> bird_jump g = Inr g' \<Longrightarrow> inv g'"
  by (auto simp: inv_def bird_jump_def play_sound_def emit_def jump_def bird_ok_def split: option.splits)

lemma inv_on_space: "inv g \<Longrightarrow> on_space g = Inr g' \<Longrightarrow> inv g'"
  by (auto simp: on_space_def inv_bird_jump split: if_splits) (auto simp: inv_def)

lemma inv_on_return: "inv g \<Longrightarrow> on_return g = Inr g' \<Longrightarrow> inv g'"
  by (auto simp: on_return_def Let_def split: if_splits sum.splits)
     (auto simp: inv_def play_sound_def emit_def)

lemma inv_on_up_down: "inv g \<Longrightarrow> inv (on_up_down k g)"
  by (auto simp: on_up_down_def) (auto simp: inv_def)

lemma inv_set_sound_volume [simp]: "inv (set_sound_volume v g) = inv g"
  by (simp add: inv_def set_sound_volume_def)

lemma inv_on_left: "inv g \<Longrightarrow> inv (on_left g)"
  by (auto simp: on_left_def)

lemma inv_on_right: "inv g \<Longrightarrow> inv (on_right g)"
  by (auto simp: on_right_def)

lemma inv_settings_click: "inv g \<Longrightarrow> state g = SETTINGS \<Longrightarrow> inv (settings_click mx my g)"
  by (auto simp: settings_click_def Let_def split: option.splits)
     (auto simp: inv_def play_sound_def emit_def)

lemma inv_on_mouse_down: "inv g \<Longrightarrow> on_mouse_down mx my g = Inr g' \<Longrightarrow> inv g'"
  by (auto simp: on_mouse_down_def Let_def inv_bird_jump inv_settings_click
        split: if_splits sum.splits option.splits dest: hit_option_range)
     (auto simp: inv_def play_sound_def emit_def dest: hit_option_range)

lemma inv_on_mouse_motion: "inv g \<Longrightarrow> inv (on_mouse_motion mx my g)"
  by (auto simp: on_mouse_motion_def split: option.splits dest: hit_option_range)
     (auto simp: inv_def play_sound_def emit_def dest: hit_option_range)

lemma inv_dispatch_event: "inv g \<Longrightarrow> dispatch_event e g = Inr g' \<Longrightarrow> inv g'"
proof (cases e)
  case (KEYDOWN k)
  assume "inv g" "dispatch_event e g = Inr g'"
  with KEYDOWN show ?thesis
    by (cases k)
       (auto simp: inv_on_escape inv_on_up_down inv_on_left inv_on_right
          intro: inv_on_space inv_on_return)
qed (auto simp: inv_on_mouse_motion split: if_splits intro: inv_on_mouse_down, auto simp: inv_def)

lemma inv_handle_event: "inv g \<Longrightarrow> handle_event e g = Inr g' \<Longrightarrow> inv g'"
  unfolding handle_event_def using inv_dispatch_event [of "begin_call g" e g'] by simp

lemma trunc_of_int [simp]: "trunc (of_int k) = k"
  by (simp add: trunc_def)

lemma trunc_numeral [simp]: "trunc (numeral k) = numeral k"
  using trunc_of_int [of "numeral k"] by simp

lemma trunc_zero [simp]: "trunc 0 = 0"
  by (simp add: trunc_def)

lemma trunc_gt: "0 \<le> k \<Longrightarrow> k < trunc r \<Longrightarrow> of_int k < r"
  by (auto simp: trunc_def less_floor_iff less_ceiling_iff split: if_splits)

lemma hit_not_off_screen:
  assumes "bird_ok b" "pu_width u = 20"
    and "colliderect (Bird_get_rect b) (PowerUp_get_rect u)"
  shows "\<not> PowerUp_is_off_screen u"
proof -
  have "365 < trunc (pu_x u - 10)"
    using assms
    by (auto simp: colliderect_def Bird_get_rect_def PowerUp_get_rect_def Rect_def bird_ok_def
          split: if_splits)
  then have "of_int 365 < pu_x u - 10"
    by (intro trunc_gt) auto
  then show ?thesis
    using assms(2) by (simp add: PowerUp_is_off_screen_def)
qed

lemma pipes_loop_keeps_refl [simp]: "pipes_loop_keeps g g"
  by (simp add: pipes_loop_keeps_def)

lemma pipes_loop_keeps_trans:
  "pipes_loop_keeps g g1 \<Longrightarrow> pipes_loop_keeps g1 g2 \<Longrightarrow> pipes_loop_keeps g g2"
  by (simp add: pipes_loop_keeps_def)

lemma score_pipe_keeps: "pipes_loop_keeps g (fst (score_pipe b g p))"
  by (simp add: score_pipe_def Let_def play_sound_def emit_def pipes_loop_keeps_def)

lemma crash_keeps: "pipes_loop_keeps g (crash b g)"
  by (simp add: crash_def emit_def pipes_loop_keeps_def)

lemma pipes_loop_unfold:
  "pipes_loop b g (p # rest) =
     (if pipe_hits b (pipe_move g p) \<and> \<not> shield_active g
      then (crash b g, pipe_move g p # rest)
      else (fst (pipes_loop b (fst (score_pipe b g (pipe_move g p))) rest),
            if is_off_screen (snd (score_pipe b g (pipe_move g p)))
            then snd (pipes_loop b (fst (score_pipe b g (pipe_move g p))) rest)
            else snd (score_pipe b g (pipe_move g p))
                 # snd (pipes_loop b (fst (score_pipe b g (pipe_move g p))) rest)))"
  by (simp add: Let_def split: prod.splits)

declare pipes_loop.simps(2) [simp del]

lemma pipes_loop_keeps: "pipes_loop_keeps g (fst (pipes_loop b g ps))"
proof (induction ps arbitrary: g)
  case Nil
  show ?case by simp
next
  case (Cons p rest)
  show ?case
    unfolding pipes_loop_unfold
    using pipes_loop_keeps_trans [OF score_pipe_keeps Cons.IH] crash_keeps
    by simp
qed

lemma powerups_loop_keeps_refl [simp]: "powerups_loop_keeps g g"
  by (simp add: powerups_loop_keeps_def)

lemma powerups_loop_keeps_trans:
  "powerups_loop_keeps g g1 \<Longrightarrow> powerups_loop_keeps g1 g2 \<Longrightarrow> powerups_loop_keeps g g2"
  by (simp add: powerups_loop_keeps_def)

lemma collect_keeps: "powerups_loop_keeps g (collect u g)"
  by (simp add: collect_def collect_powerup_def emit_def powerups_loop_keeps_def
        split: powerup_type.splits)

lemma powerups_loop_unfold:
  "powerups_loop b g (u # rest) =
     (if powerup_hits b (powerup_move g u) then
        (if PowerUp_is_off_screen (powerup_move g u) then Inl ValueError
         else powerups_loop b (collect (powerup_move g u) g) rest)
      else
        (case powerups_loop b g rest of
           Inl e \<Rightarrow> Inl e
         | Inr (g1, us) \<Rightarrow>
             Inr (g1, if PowerUp_is_off_screen (powerup_move g u) then us
                      else powerup_move g u # us)))"
  by (simp add: Let_def)

declare powerups_loop.simps(2) [simp del]

lemma powerups_loop_keeps:
  "powerups_loop b g us = Inr (g', us') \<Longrightarrow> powerups_loop_keeps g g'"
proof (induction us arbitrary: g g' us')
  case Nil
  then show ?case by simp
next
  case (Cons u rest)
  show ?case
  proof (cases "powerup_hits b (powerup_move g u)")
    case True
    with Cons.prems have "powerups_loop b (collect (powerup_move g u) g) rest = Inr (g', us')"
      by (simp add: powerups_loop_unfold split: if_splits)
    from Cons.IH [OF this] collect_keeps show ?thesis
      by (rule powerups_loop_keeps_trans [rotated])
  next
    case False
    with Cons.prems obtain us1 where "powerups_loop b g rest = Inr (g', us1)"
      by (auto simp: powerups_loop_unfold split: sum.splits)
    from Cons.IH [OF this] show ?thesis .
  qed
qed

lemma inv_countdown_tick [simp]: "inv (countdown_tick g) = inv g"
  by (simp add: countdown_tick_def Let_def inv_def play_sound_def emit_def)

lemma timer_ok_step:
  "timer_ok a t full \<Longrightarrow>
     timer_ok (if a then \<not> t - 1 \<le> 0 else False) (if a then t - 1 else t) full"
  by (auto simp: timer_ok_def)

lemma inv_update_effect_timers: "inv g \<Longrightarrow> inv (update_effect_timers g)"
  by (auto simp: inv_def update_effect_timers_def update_shield_def update_slow_motion_def
        update_double_score_def timer_ok_def)

lemma inv_spawn_pipe: "inv g \<Longrightarrow> inv (spawn_pipe r g)"
  by (auto simp: inv_def spawn_pipe_def)

lemma inv_spawn_powerup: "inv g \<Longrightarrow> inv (spawn_powerup r g)"
  by (auto simp: inv_def spawn_powerup_def PowerUp_init_def powerup_ok_def)

lemma bird_ok_update [simp]: "bird_ok (Bird_update b) = bird_ok b"
  by (simp add: bird_ok_def Bird_update_def Let_def)

lemma inv_advance: "inv g \<Longrightarrow> bird g = Some b \<Longrightarrow> inv (advance r b g)"
  unfolding advance_def
  by (intro inv_spawn_powerup inv_spawn_pipe inv_update_effect_timers) (auto simp: inv_def)

lemma update_pipes_alt:
  "update_pipes b g = (fst (pipes_loop b g (pipes g)))\<lparr>pipes := snd (pipes_loop b g (pipes g))\<rparr>"
  by (simp add: update_pipes_def split: prod.splits)

lemma simulate_alt:
  "simulate r b g =
     (case update_powerups (Bird_update b) (update_pipes (Bird_update b) (advance r b g)) of
        Inl e \<Rightarrow> Inl e
      | Inr g1 \<Rightarrow> Inr (ground_check (Bird_update b) g1))"
  by (simp add: simulate_def Let_def)

lemma inv_update_pipes:
  "inv g \<Longrightarrow> \<not> paused g \<Longrightarrow> bird g \<noteq> None \<Longrightarrow> inv (update_pipes b g)"
  using pipes_loop_keeps [of g b "pipes g"]
  by (simp add: inv_def update_pipes_alt pipes_loop_keeps_def)

lemma powerup_ok_move [simp]: "powerup_ok (powerup_move g u) = powerup_ok u"
  by (simp add: powerup_ok_def powerup_move_def PowerUp_update_def)

lemma powerups_loop_total:
  "bird_ok b \<Longrightarrow> list_all powerup_ok us \<Longrightarrow> \<exists>g' us'. powerups_loop b g us = Inr (g', us')"
proof (induction us arbitrary: g)
  case Nil
  then show ?case by simp
next
  case (Cons u rest)
  have ok: "powerup_ok (powerup_move g u)"
    using Cons.prems by simp
  have no_double: "powerup_hits b (powerup_move g u) \<Longrightarrow> \<not> PowerUp_is_off_screen (powerup_move g u)"
    using hit_not_off_screen [of b "powerup_move g u"] Cons.prems(1) ok
    by (simp add: powerup_hits_def powerup_ok_def)
  from Cons.IH [of "collect (powerup_move g u) g"] Cons.IH [of g] Cons.prems no_double
  show ?case
    by (auto simp: powerups_loop_unfold)
qed

lemma timers_ok_collect: "timers_ok g \<Longrightarrow> timers_ok (collect u g)"
  by (auto simp: timers_ok_def collect_def collect_powerup_def emit_def timer_ok_def
        split: powerup_type.splits)

lemma powerups_loop_ok:
  "powerups_loop b g us = Inr (g', us') \<Longrightarrow> timers_ok g \<Longrightarrow> list_all powerup_ok us \<Longrightarrow>
     timers_ok g' \<and> list_all powerup_ok us'"
proof (induction us arbitrary: g g' us')
  case Nil
  then show ?case by simp
next
  case (Cons u rest)
  show ?case
  proof (cases "powerup_hits b (powerup_move g u)")
    case True
    with Cons.prems have "powerups_loop b (collect (powerup_move g u) g) rest = Inr (g', us')"
      by (simp add: powerups_loop_unfold split: if_splits)
    from Cons.IH [OF this] Cons.prems timers_ok_collect show ?thesis
      by simp
  next
    case False
    with Cons.prems obtain us1 where
      rest: "powerups_loop b g rest = Inr (g', us1)" and
      us': "us' = (if PowerUp_is_off_screen (powerup_move g u) then us1 else powerup_move g u # us1)"
      by (auto simp: powerups_loop_unfold split: sum.splits)
    from Cons.IH [OF rest] Cons.prems us' show ?thesis
      by simp
  qed
qed

lemma inv_update_powerups:
  assumes "inv g" "update_powerups b g = Inr g'"
  shows "inv g'"
proof -
  from assms(2) obtain g1 us where
    lp: "powerups_loop b g (powerups g) = Inr (g1, us)" and g': "g' = g1\<lparr>powerups := us\<rparr>"
    by (auto simp: update_powerups_def split: sum.splits)
  have "timers_ok g" "list_all powerup_ok (powerups g)"
    using assms(1) by (simp_all add: inv_def timers_ok_def)
  with powerups_loop_ok [OF lp] have "timers_ok g1" "list_all powerup_ok us"
    by simp_all
  with powerups_loop_keeps [OF lp] assms(1) show ?thesis
    unfolding g' by (simp add: inv_def timers_ok_def powerups_loop_keeps_def)
qed

lemma update_powerups_total:
  "inv g \<Longrightarrow> bird_ok b \<Longrightarrow> \<exists>g'. update_powerups b g = Inr g'"
  using powerups_loop_total [of b "powerups g" g]
  by (auto simp: update_powerups_def inv_def)

lemma inv_crash: "inv g \<Longrightarrow> \<not> paused g \<Longrightarrow> inv (crash b g)"
  by (simp add: crash_def emit_def inv_def)

lemma inv_ground_check: "inv g \<Longrightarrow> \<not> paused g \<Longrightarrow> inv (ground_check b' g)"
  by (simp add: ground_check_def inv_crash)

lemma paused_advance [simp]: "paused (advance r b g) = paused g"
  by (simp add: advance_def spawn_powerup_def spawn_pipe_def update_effect_timers_def
        update_shield_def update_slow_motion_def update_double_score_def)

lemma paused_update_pipes [simp]: "paused (update_pipes b g) = paused g"
  using pipes_loop_keeps [of g b "pipes g"] by (simp add: update_pipes_alt pipes_loop_keeps_def)

lemma paused_update_powerups: "update_powerups b g = Inr g' \<Longrightarrow> paused g' = paused g"
  by (auto simp: update_powerups_def powerups_loop_keeps_def split: sum.splits
        dest!: powerups_loop_keeps)

lemma bird_advance [simp]: "bird (advance r b g) = Some (Bird_update b)"
  by (simp add: advance_def spawn_powerup_def spawn_pipe_def update_effect_timers_def
        update_shield_def update_slow_motion_def update_double_score_def)

lemma bird_update_pipes [simp]: "bird (update_pipes b g) = bird g"
  using pipes_loop_keeps [of g b "pipes g"] by (simp add: update_pipes_alt pipes_loop_keeps_def)

lemma bird_update_powerups: "update_powerups b g = Inr g' \<Longrightarrow> bird g' = bird g"
  by (auto simp: update_powerups_def powerups_loop_keeps_def split: sum.splits
        dest!: powerups_loop_keeps)

lemma inv_before_powerups:
  assumes "inv g" "bird g = Some b" "\<not> paused g"
  shows "inv (update_pipes (Bird_update b) (advance r b g))"
  using assms by (intro inv_update_pipes inv_advance) simp_all

lemma simulate_total:
  assumes "inv g" "bird g = Some b" "\<not> paused g"
  shows "\<exists>g'. simulate r b g = Inr g'"
proof -
  have "bird_ok b"
    using assms by (simp add: inv_def)
  then have "bird_ok (Bird_update b)"
    by simp
  from update_powerups_total [OF inv_before_powerups [OF assms] this, of r]
  show ?thesis
    by (auto simp: simulate_alt)
qed

lemma inv_simulate:
  assumes "inv g" "bird g = Some b" "\<not> paused g" "simulate r b g = Inr g'"
  shows "inv g'"
proof -
  from assms(4) obtain g1 where
    pu: "update_powerups (Bird_update b) (update_pipes (Bird_update b) (advance r b g)) = Inr g1"
    and g': "g' = ground_check (Bird_update b) g1"
    by (auto simp: simulate_alt split: sum.splits)
  have "inv g1"
    using inv_update_powerups [OF inv_before_powerups [OF assms(1-3)] pu] .
  moreover have "\<not> paused g1"
    using paused_update_powerups [OF pu] assms(3) by simp
  ultimately show ?thesis
    unfolding g' by (rule inv_ground_check)
qed

lemma update_total: "inv g \<Longrightarrow> \<exists>g'. update r g = Inr g'"
  using simulate_total [of "begin_call g" _ r]
  by (auto simp: update_def begin_call_def split: option.splits) (auto simp: inv_def)

lemma inv_update: "inv g \<Longrightarrow> update r g = Inr g' \<Longrightarrow> inv g'"
  using inv_simulate [of "begin_call g" _ r g']
  by (auto simp: update_def split: option.splits if_splits) (auto simp: begin_call_def)

lemma reachable_inv: "reachable g \<Longrightarrow> inv g"
  by (induction rule: reachable.induct) (auto intro: inv_init inv_handle_event inv_update)

lemma paused_start_game [simp]: "paused (start_game g) = paused g"
  by (simp add: start_game_def emit_def)

lemma state_start_game [simp]: "state (start_game g) = PLAYING"
  by (simp add: start_game_def emit_def)

lemma dispatch_event_paused:
  assumes "dispatch_event e g = Inr g'"
  shows "(paused g' \<noteq> paused g \<longrightarrow> state g = PLAYING \<and> state g' = PLAYING)
       \<and> (paused g \<and> state g = PLAYING \<longrightarrow> state g' = PLAYING)"
proof (cases e)
  case (KEYDOWN k)
  with assms show ?thesis
    by (cases k)
       (auto simp: on_escape_def on_space_def on_return_def on_up_down_def on_left_def
          on_right_def bird_jump_def play_sound_def emit_def set_sound_volume_def Let_def
          split: if_splits option.splits sum.splits)
next
  case (MOUSEBUTTONDOWN button mx my)
  with assms show ?thesis
    by (auto simp: on_mouse_down_def settings_click_def bird_jump_def play_sound_def emit_def
          set_sound_volume_def Let_def split: if_splits option.splits sum.splits)
next
  case (MOUSEMOTION mx my)
  with assms show ?thesis
    by (auto simp: on_mouse_motion_def play_sound_def emit_def set_sound_volume_def
          split: if_splits option.splits)
qed (use assms in \<open>auto split: if_splits\<close>)

lemma handle_event_paused:
  assumes "handle_event e g = Inr g'"
  shows "(paused g' \<noteq> paused g \<longrightarrow> state g = PLAYING \<and> state g' = PLAYING)
       \<and> (paused g \<and> state g = PLAYING \<longrightarrow> state g' = PLAYING)"
  using dispatch_event_paused [of e "begin_call g" g'] assms
  by (simp add: handle_event_def begin_call_def)

lemma update_paused: "update r g = Inr g' \<Longrightarrow> paused g' = paused g"
proof -
  assume u: "update r g = Inr g'"
  show ?thesis
  proof (cases "sim_tick g")
    case False
    with u show ?thesis
      by (auto simp: update_def sim_tick_def begin_call_def countdown_tick_def Let_def
            play_sound_def emit_def split: option.splits if_splits)
  next
    case True
    then obtain b where b: "bird g = Some b"
      by (auto simp: sim_tick_def)
    with True u have "simulate r b (begin_call g) = Inr g'"
      by (simp add: update_def sim_tick_def)
    then obtain g1 where
      pu: "update_powerups (Bird_update b) (update_pipes (Bird_update b) (advance r b (begin_call g))) = Inr g1"
      and g': "g' = ground_check (Bird_update b) g1"
      by (auto simp: simulate_alt split: sum.splits)
    have "paused g' = paused g1"
      unfolding g' by (simp add: ground_check_def crash_def emit_def)
    with paused_update_powerups [OF pu] show ?thesis
      by (simp add: begin_call_def)
  qed
qed

lemma update_while_paused: "paused g \<Longrightarrow> update r g = Inr (begin_call g)"
  by (simp add: update_def split: option.splits)

lemma reachable_handle_events:
  "reachable g \<Longrightarrow> handle_events es g = Inr g' \<Longrightarrow> reachable g'"
proof (induction es arbitrary: g)
  case Nil
  then show ?case by simp
next
  case (Cons e es)
  then show ?case
    by (auto split: sum.splits intro: reachable_event)
qed

lemma paused_example_reachable: "reachable paused_example"
proof -
  have "handle_events [KEYDOWN K_SPACE, KEYDOWN K_ESCAPE] Game_init = Inr paused_example"
    by (simp add: handle_event_def begin_call_def on_space_def on_escape_def start_game_def
          Game_init_def emit_def Bird_init_def SCREEN_WIDTH_def SCREEN_HEIGHT_def
          paused_example_def)
  with reachable_init show ?thesis
    by (rule reachable_handle_events)
qed

section \<open>The claims\<close>

text \<open>
  Claim C9. In every reachable state the paused flag is set only while the mode is
  \<open>PLAYING\<close>. An event changes the flag only in the mode \<open>PLAYING\<close> and leaves the
  mode \<open>PLAYING\<close>; while the game is paused no event changes the mode; \<open>update\<close>
  never changes the flag; and while the game is paused \<open>update\<close> returns the state as
  it is (with no call to a collaborator), so that no entity update, spawn, collision
  test or effect timer runs.
\<close>

theorem paused_only_while_playing:
  assumes "reachable g"
  shows "(state g \<noteq> PLAYING \<longrightarrow> \<not> paused g)
       \<and> (\<forall>e g'. handle_event e g = Inr g' \<and> paused g' \<noteq> paused g
             \<longrightarrow> state g = PLAYING \<and> state g' = PLAYING)
       \<and> (\<forall>e g'. handle_event e g = Inr g' \<and> paused g \<longrightarrow> state g' = PLAYING)
       \<and> (\<forall>r g'. update r g = Inr g' \<longrightarrow> paused g' = paused g)
       \<and> (paused g \<longrightarrow> (\<forall>r. update r g = Inr (begin_call g)))"
proof -
  have p: "paused g \<longrightarrow> state g = PLAYING"
    using reachable_inv [OF assms] by (simp add: inv_def)
  show ?thesis
    using p handle_event_paused update_paused update_while_paused by blast
qed

theorem paused_only_while_playing_witness:
  "reachable paused_example \<and> paused paused_example \<and> state paused_example = PLAYING
   \<and> update draws paused_example = Inr (begin_call paused_example)"
proof -
  have p: "paused paused_example" and s: "state paused_example = PLAYING"
    by (simp_all add: paused_example_def)
  from paused_only_while_playing [OF paused_example_reachable] p
  have "update draws paused_example = Inr (begin_call paused_example)"
    by blast
  with paused_example_reachable p s show ?thesis
    by simp
qed

end
